theory Spec2Isabelle
  imports Main
begin

section \<open>The MP3 player of the Pomodoro screen\<close>

text \<open>
  The source is one React component (\<^verbatim>\<open>Index\<close>, the file whose name is not known; the
  line numbers below are its lines), with the same player as \<^verbatim>\<open>App\<close> of
  \<^verbatim>\<open>Gym_app_mobile/app.js\<close> under shorter names. Its player is a handful of
  \<^verbatim>\<open>useState\<close> cells, two effects (load the playlist once, save it when it changes) and
  the handlers of the buttons. The model keeps the cells and the three platform
  services the handlers talk to (file system, key-value storage, audio engine) in one
  record, and every handler is a function from world to world.

  Three conventions hold throughout.
  \<^item> A platform call that the source awaits inside \<^verbatim>\<open>try\<close> may reject; the outcome is an
    argument of type \<open>promise\<close>, so the \<^verbatim>\<open>catch\<close> branch is a branch of the model.
  \<^item> A handler reads the state cells through the closure of the render that created it.
    A button press runs the handler of the latest render, so the handler reads the
    cells of the world it starts in. The two places where an older closure is used
    are written out: the status callback handed to \<^verbatim>\<open>createAsync\<close>, and the effects of
    the first render.
  \<^item> An \<^verbatim>\<open>async\<close> handler whose suspension matters is split at the \<^verbatim>\<open>await\<close> into a
    \<open>_begin\<close> and an \<open>_end\<close> function; the handler run without interruption is
    their composition.
\<close>

subsection \<open>Data\<close>

text \<open>A playlist item \<^verbatim>\<open>{ name, uri }\<close>.\<close>

record track =
  name :: string
  uri :: string

text \<open>
  An \<^verbatim>\<open>Audio.Sound\<close> object: its identity, the uri that was passed to \<^verbatim>\<open>createAsync\<close> to
  make it, and the status callback registered with it. The callback is
  \<^verbatim>\<open>onMp3PlaybackStatusUpdate\<close>, a closure over \<^verbatim>\<open>currentMp3Sound\<close> (its \<^verbatim>\<open>useCallback\<close>
  dependency); the third field is that captured value.
\<close>

datatype sound = Sound (sid: nat) (source_uri: string) (captured: "sound option")

text \<open>
  The property \<^verbatim>\<open>_uri\<close> that \<^verbatim>\<open>removeMp3Audio\<close> (line 269) and the list (lines 372-403)
  read from the sound held. No line of the source assigns it, and the \<^verbatim>\<open>Sound\<close> objects
  that \<^verbatim>\<open>createAsync\<close> hands out have no property of that name: the read gives
  \<^verbatim>\<open>undefined\<close>, here \<open>None\<close>, which \<^verbatim>\<open>===\<close> finds equal to no uri.
\<close>

definition sound_uri :: "sound \<Rightarrow> string option" where
  "sound_uri s = None"

text \<open>The fields of a playback status that the component reads.\<close>

record status =
  positionMillis :: nat
  durationMillis :: nat
  didJustFinish :: bool

text \<open>
  The calls of \<^verbatim>\<open>showMp3CustomAlert\<close>, one constructor per call site (the texts are
  Portuguese sentences; the file name is kept where the text quotes it).
\<close>

datatype alert =
    Erro_de_Carregamento
  | Erro_ao_Salvar
  | Erro_de_Reproducao
  | Erro_ao_Pausar
  | Erro_ao_Parar
  | Sucesso_adicionado string
  | Aviso_ja_na_playlist string
  | Erro_ao_Adicionar
  | Sucesso_removido string
  | Erro_ao_Remover

datatype promise = Resolves | Rejects

text \<open>A node of the file system: a file with its bytes, or a directory.\<close>

datatype node = File "nat list" | Dir

record world =
  playlist :: "track list"
  currentMp3Sound :: "sound option"
  isMp3Playing :: bool
  mp3PlaybackStatus :: "status option"
  mp3ErrorMessage :: "alert option"
  showMp3ErrorModal :: bool
  mp3Loading :: bool
  files :: "string \<Rightarrow> node option"
  stored :: "track list option"
  loaded :: "sound list"
  created :: nat

text \<open>
  The first seven fields are the \<^verbatim>\<open>useState\<close> cells of the player. \<open>files\<close> is the file
  system (\<open>None\<close>: nothing exists at the path), \<open>stored\<close> the value of AsyncStorage under
  \<^verbatim>\<open>PLAYLIST_STORAGE_KEY\<close> (\<open>None\<close>: \<^verbatim>\<open>getItem\<close> gives \<^verbatim>\<open>null\<close>; \<open>Some pl\<close>: the text
  \<^verbatim>\<open>JSON.stringify(pl)\<close>, which \<^verbatim>\<open>JSON.parse\<close> reads back as \<open>pl\<close>), \<open>loaded\<close> the sounds the
  audio engine holds loaded, in the order they were loaded, and \<open>created\<close> the number of
  \<^verbatim>\<open>Sound\<close> objects made so far, which names the next one.
\<close>

definition documentDirectory :: string where
  "documentDirectory = ''file:///data/documents/''"

definition AUDIO_DIR :: string where
  "AUDIO_DIR = documentDirectory @ ''audio/''"

text \<open>The cells as \<^verbatim>\<open>useState\<close> initialises them, over a given file system and storage.\<close>

definition initial_world :: "(string \<Rightarrow> node option) \<Rightarrow> track list option \<Rightarrow> world" where
  "initial_world fs st =
     \<lparr>playlist = [], currentMp3Sound = None, isMp3Playing = False,
      mp3PlaybackStatus = None, mp3ErrorMessage = None, showMp3ErrorModal = False,
      mp3Loading = False, files = fs, stored = st, loaded = [], created = 0\<rparr>"

subsection \<open>Alerts\<close>

text \<open>Lines 285-294.\<close>

definition showMp3CustomAlert :: "alert \<Rightarrow> world \<Rightarrow> world" where
  "showMp3CustomAlert a w = w\<lparr>mp3ErrorMessage := Some a, showMp3ErrorModal := True\<rparr>"

definition closeMp3ErrorModal :: "world \<Rightarrow> world" where
  "closeMp3ErrorModal w = w\<lparr>showMp3ErrorModal := False, mp3ErrorMessage := None\<rparr>"

subsection \<open>Saving the playlist\<close>

text \<open>\<^verbatim>\<open>saveMp3Playlist\<close>, lines 132-139, called with the playlist of its closure.\<close>

definition saveMp3Playlist :: "promise \<Rightarrow> track list \<Rightarrow> world \<Rightarrow> world" where
  "saveMp3Playlist setItem pl w =
     (case setItem of
        Resolves \<Rightarrow> w\<lparr>stored := Some pl\<rparr>
      | Rejects \<Rightarrow> showMp3CustomAlert Erro_ao_Salvar w)"

text \<open>
  The save effect (lines 131-143, dependencies \<^verbatim>\<open>[playlist, mp3Loading]\<close>). It runs after a render \<open>r\<close>
  and reads \<^verbatim>\<open>playlist\<close> and \<^verbatim>\<open>mp3Loading\<close> as that render saw them; \<open>w\<close> is the world it
  runs in.
\<close>

definition save_effect :: "promise \<Rightarrow> world \<Rightarrow> world \<Rightarrow> world" where
  "save_effect setItem r w =
     (if \<not> mp3Loading r then saveMp3Playlist setItem (playlist r) w else w)"

text \<open>
  A handler that stored a new array in \<^verbatim>\<open>playlist\<close> or changed \<^verbatim>\<open>mp3Loading\<close> causes a
  render of the cells as they now are, after which the save effect runs.
\<close>

definition rerender :: "promise \<Rightarrow> world \<Rightarrow> world" where
  "rerender setItem w = save_effect setItem w w"

subsection \<open>Playback\<close>

text \<open>
  \<^verbatim>\<open>sound.unloadAsync()\<close> when it resolves: the engine no longer holds the sound. In
  the status callback the source does not await it, and the cells are set whatever
  it answers; in the first lines of \<^verbatim>\<open>playMp3Audio\<close> it is awaited outside \<^verbatim>\<open>try\<close>:
  \<open>playMp3Audio_begin\<close> is the path on which it resolves, \<open>playMp3Audio_press\<close> below
  has the other.
\<close>

definition unloadAsync :: "sound \<Rightarrow> world \<Rightarrow> world" where
  "unloadAsync s w = w\<lparr>loaded := removeAll s (loaded w)\<rparr>"

text \<open>
  \<^verbatim>\<open>onMp3PlaybackStatusUpdate\<close>, lines 177-186; \<open>cur\<close> is the \<^verbatim>\<open>currentMp3Sound\<close> of its
  closure.
\<close>

definition onMp3PlaybackStatusUpdate :: "sound option \<Rightarrow> status \<Rightarrow> world \<Rightarrow> world" where
  "onMp3PlaybackStatusUpdate cur st w =
     (let w1 = w\<lparr>mp3PlaybackStatus := Some st\<rparr> in
      if didJustFinish st then
        (let w2 = w1\<lparr>isMp3Playing := False\<rparr> in
         case cur of
           None \<Rightarrow> w2
         | Some s \<Rightarrow> (unloadAsync s w2)\<lparr>currentMp3Sound := None\<rparr>)
      else w1)"

text \<open>
  The audio engine reports a status of a sound by calling the callback that was
  registered when the sound was created. When it does so is the engine's choice (it
  reports while a sound plays, and also from within its own \<^verbatim>\<open>createAsync\<close> and
  \<^verbatim>\<open>unloadAsync\<close>); the model leaves that choice open: a report is a step of its own,
  for whichever sound, and the handlers of the model make no report themselves. A
  world reached by handlers alone is one in which no report has been delivered yet.
\<close>

definition status_event :: "sound \<Rightarrow> status \<Rightarrow> world \<Rightarrow> world" where
  "status_event s st w = onMp3PlaybackStatusUpdate (captured s) st w"

text \<open>
  \<^verbatim>\<open>Audio.Sound.createAsync({ uri }, { shouldPlay: true }, callback)\<close> makes a new
  \<^verbatim>\<open>Sound\<close>; the engine holds it loaded once the promise has resolved.
\<close>

definition createAsync :: "string \<Rightarrow> sound option \<Rightarrow> world \<Rightarrow> sound \<times> world" where
  "createAsync itemUri cb w =
     (Sound (created w) itemUri cb, w\<lparr>created := Suc (created w)\<rparr>)"

text \<open>
  \<^verbatim>\<open>playMp3Audio\<close>, lines 189-195, up to the \<^verbatim>\<open>await\<close> of \<^verbatim>\<open>createAsync\<close>. The callback it passes is the
  \<^verbatim>\<open>onMp3PlaybackStatusUpdate\<close> of the same render, whose \<^verbatim>\<open>currentMp3Sound\<close> is the one
  the handler tests in its first line.
\<close>

definition playMp3Audio_begin :: "string \<Rightarrow> world \<Rightarrow> sound \<times> world" where
  "playMp3Audio_begin itemUri w =
     (let cur = currentMp3Sound w;
          w1 = (case cur of
                  None \<Rightarrow> w
                | Some s \<Rightarrow> (unloadAsync s w)\<lparr>currentMp3Sound := None\<rparr>)
      in createAsync itemUri cur w1)"

text \<open>
  \<^verbatim>\<open>playMp3Audio\<close>, lines 195-202, from the moment the promise of \<^verbatim>\<open>createAsync\<close>
  settles.
\<close>

definition playMp3Audio_end :: "sound \<Rightarrow> promise \<Rightarrow> world \<Rightarrow> world" where
  "playMp3Audio_end newMp3Sound create w =
     (case create of
        Resolves \<Rightarrow>
          w\<lparr>loaded := loaded w @ [newMp3Sound],
            currentMp3Sound := Some newMp3Sound, isMp3Playing := True\<rparr>
      | Rejects \<Rightarrow> (showMp3CustomAlert Erro_de_Reproducao w)\<lparr>isMp3Playing := False\<rparr>)"

definition playMp3Audio :: "string \<Rightarrow> promise \<Rightarrow> world \<Rightarrow> world" where
  "playMp3Audio itemUri create w =
     (case playMp3Audio_begin itemUri w of
        (newMp3Sound, w1) \<Rightarrow> playMp3Audio_end newMp3Sound create w1)"

text \<open>
  The whole handler with the answer of the \<^verbatim>\<open>unloadAsync\<close> of line 191 as well. That
  call is awaited outside \<^verbatim>\<open>try\<close>: when it rejects, the handler ends there, so
  nothing is set, \<^verbatim>\<open>createAsync\<close> is not called and no alert is shown.
\<close>

definition playMp3Audio_press :: "promise \<Rightarrow> string \<Rightarrow> promise \<Rightarrow> world \<Rightarrow> world" where
  "playMp3Audio_press unload itemUri create w =
     (case currentMp3Sound w of
        None \<Rightarrow> playMp3Audio itemUri create w
      | Some s \<Rightarrow>
          (case unload of
             Rejects \<Rightarrow> w
           | Resolves \<Rightarrow> playMp3Audio itemUri create w))"

text \<open>Lines 206-216 and 219-232.\<close>

definition pauseMp3Audio :: "promise \<Rightarrow> world \<Rightarrow> world" where
  "pauseMp3Audio pauseAsync w =
     (if currentMp3Sound w \<noteq> None \<and> isMp3Playing w then
        (case pauseAsync of
           Resolves \<Rightarrow> w\<lparr>isMp3Playing := False\<rparr>
         | Rejects \<Rightarrow> showMp3CustomAlert Erro_ao_Pausar w)
      else w)"

definition stopMp3Audio :: "promise \<Rightarrow> promise \<Rightarrow> world \<Rightarrow> world" where
  "stopMp3Audio stopAsync unload w =
     (case currentMp3Sound w of
        None \<Rightarrow> w
      | Some s \<Rightarrow>
          (case stopAsync of
             Rejects \<Rightarrow> showMp3CustomAlert Erro_ao_Parar w
           | Resolves \<Rightarrow>
               (case unload of
                  Rejects \<Rightarrow> showMp3CustomAlert Erro_ao_Parar w
                | Resolves \<Rightarrow>
                    (unloadAsync s w)\<lparr>currentMp3Sound := None, isMp3Playing := False,
                      mp3PlaybackStatus := None\<rparr>)))"

subsection \<open>The file system\<close>

text \<open>
  The calls of \<^verbatim>\<open>expo-file-system\<close> the component makes. \<^verbatim>\<open>getInfoAsync(p).exists\<close> says
  whether something is at \<open>p\<close>; \<^verbatim>\<open>copyAsync\<close> rejects when there is no source and
  otherwise puts the source's node at the destination, replacing what was there;
  \<^verbatim>\<open>deleteAsync\<close> with \<^verbatim>\<open>idempotent: true\<close> leaves nothing at the path, whether or not
  something was there.
\<close>

definition exists_at :: "(string \<Rightarrow> node option) \<Rightarrow> string \<Rightarrow> bool" where
  "exists_at fs p = (fs p \<noteq> None)"

definition makeDirectoryAsync :: "string \<Rightarrow> (string \<Rightarrow> node option) \<Rightarrow> string \<Rightarrow> node option" where
  "makeDirectoryAsync p fs = fs(p \<mapsto> Dir)"

definition copyAsync ::
  "string \<Rightarrow> string \<Rightarrow> (string \<Rightarrow> node option) \<Rightarrow> (string \<Rightarrow> node option) option" where
  "copyAsync from to fs = (if exists_at fs from then Some (fs(to := fs from)) else None)"

definition deleteAsync :: "string \<Rightarrow> (string \<Rightarrow> node option) \<Rightarrow> string \<Rightarrow> node option" where
  "deleteAsync p fs = fs(p := None)"

subsection \<open>Loading the playlist\<close>

text \<open>
  The loop of \<^verbatim>\<open>loadMp3Playlist\<close> over the parsed playlist: \<open>validPlaylist\<close> is the array
  the loop pushes onto.
\<close>

fun probe :: "(string \<Rightarrow> node option) \<Rightarrow> track list \<Rightarrow> track list \<Rightarrow> track list" where
  "probe fs validPlaylist [] = validPlaylist"
| "probe fs validPlaylist (item # rest) =
     (if exists_at fs (uri item) then probe fs (validPlaylist @ [item]) rest
      else probe fs validPlaylist rest)"

text \<open>
  What \<^verbatim>\<open>await AsyncStorage.getItem\<close> followed by \<^verbatim>\<open>JSON.parse\<close> hands to the loop:
  the stored value, or an exception of either call.
\<close>

datatype read = Read "track list option" | ReadThrows

text \<open>
  \<^verbatim>\<open>loadMp3Playlist\<close>, lines 102-105, up to the \<^verbatim>\<open>await\<close> of \<^verbatim>\<open>getItem\<close>.
\<close>

definition loadMp3Playlist_begin :: "world \<Rightarrow> world" where
  "loadMp3Playlist_begin w = w\<lparr>mp3Loading := True\<rparr>"

text \<open>
  The rest of \<^verbatim>\<open>loadMp3Playlist\<close>, lines 105-124: \<open>item\<close> is what the read gave, \<open>getInfo\<close> whether the
  calls of \<^verbatim>\<open>getInfoAsync\<close> resolve (there is none for an empty list). The \<^verbatim>\<open>finally\<close>
  clears \<^verbatim>\<open>mp3Loading\<close>, and the render that follows runs the save effect. (Where
  React renders once between \<^verbatim>\<open>setPlaylist\<close> and \<^verbatim>\<open>setMp3Loading(false)\<close>, the save
  effect of that render sees \<^verbatim>\<open>mp3Loading\<close> true and does nothing.)
\<close>

definition loadMp3Playlist_end :: "read \<Rightarrow> promise \<Rightarrow> promise \<Rightarrow> world \<Rightarrow> world" where
  "loadMp3Playlist_end item getInfo setItem w =
     (let w1 =
        (case item of
           ReadThrows \<Rightarrow> showMp3CustomAlert Erro_de_Carregamento w
         | Read None \<Rightarrow> w
         | Read (Some parsedPlaylist) \<Rightarrow>
             if getInfo = Rejects \<and> parsedPlaylist \<noteq> []
             then showMp3CustomAlert Erro_de_Carregamento w
             else w\<lparr>playlist := probe (files w) [] parsedPlaylist\<rparr>)
      in rerender setItem (w1\<lparr>mp3Loading := False\<rparr>))"

text \<open>
  The effects of the first render \<open>r\<close>, in the order the component declares them. The
  load effect runs \<^verbatim>\<open>loadMp3Playlist\<close> up to its first \<^verbatim>\<open>await\<close>: \<^verbatim>\<open>setMp3Loading(true)\<close> is
  queued and \<^verbatim>\<open>getItem\<close> is issued. Then the save effect of the same render runs; it
  reads \<^verbatim>\<open>playlist\<close> and \<^verbatim>\<open>mp3Loading\<close> as the first render saw them. (The render that
  \<^verbatim>\<open>setMp3Loading(true)\<close> causes runs the save effect once more; it sees \<^verbatim>\<open>mp3Loading\<close>
  true and does nothing.) The storage serves its requests in the order they were
  issued, so the pending \<^verbatim>\<open>getItem\<close> yields the value stored before the save effect
  wrote; that value is the second component of the result.
\<close>

definition mount :: "promise \<Rightarrow> world \<Rightarrow> world \<times> track list option" where
  "mount setItem r =
     (let item = stored r;
          w1 = loadMp3Playlist_begin r;
          w2 = save_effect setItem r w1
      in (w2, item))"

text \<open>
  Starting the application over a file system and a storage, with the load run to its
  end before anything else happens. \<open>getItem\<close> says whether reading and parsing succeed.
\<close>

definition launch ::
  "promise \<Rightarrow> promise \<Rightarrow> promise \<Rightarrow> promise \<Rightarrow>
   (string \<Rightarrow> node option) \<Rightarrow> track list option \<Rightarrow> world" where
  "launch setItem getItem getInfo setItem' fs st =
     (case mount setItem (initial_world fs st) of
        (w, item) \<Rightarrow>
          loadMp3Playlist_end (case getItem of Resolves \<Rightarrow> Read item | Rejects \<Rightarrow> ReadThrows)
            getInfo setItem' w)"

subsection \<open>Adding and removing tracks\<close>

text \<open>
  What \<^verbatim>\<open>DocumentPicker.getDocumentAsync\<close> gives: an exception, a result that is
  cancelled or has no asset, or the name and uri of the first asset.
\<close>

datatype picked = PickerThrows | Canceled | Asset string string

text \<open>
  \<^verbatim>\<open>pickMp3File\<close>, lines 237-265. The function passed to \<^verbatim>\<open>setPlaylist\<close> gets the
  playlist as it is when the copy has finished; it returns the array it was given
  when the destination is already there, so that no render and no save follow.
\<close>

definition pickMp3File ::
  "picked \<Rightarrow> promise \<Rightarrow> promise \<Rightarrow> promise \<Rightarrow> promise \<Rightarrow> world \<Rightarrow> world" where
  "pickMp3File result getInfo mkdir copy setItem w =
     (case result of
        PickerThrows \<Rightarrow> showMp3CustomAlert Erro_ao_Adicionar w
      | Canceled \<Rightarrow> w
      | Asset fileName fileUri \<Rightarrow>
          if getInfo = Rejects then showMp3CustomAlert Erro_ao_Adicionar w
          else if \<not> exists_at (files w) AUDIO_DIR \<and> mkdir = Rejects
          then showMp3CustomAlert Erro_ao_Adicionar w
          else
            (let w1 = (if \<not> exists_at (files w) AUDIO_DIR
                       then w\<lparr>files := makeDirectoryAsync AUDIO_DIR (files w)\<rparr> else w);
                 destinationUri = AUDIO_DIR @ fileName
             in if copy = Rejects then showMp3CustomAlert Erro_ao_Adicionar w1
                else
                  (case copyAsync fileUri destinationUri (files w1) of
                     None \<Rightarrow> showMp3CustomAlert Erro_ao_Adicionar w1
                   | Some fs \<Rightarrow>
                       (let w2 = w1\<lparr>files := fs\<rparr> in
                        if \<not> list_ex (\<lambda>item. uri item = destinationUri) (playlist w2)
                        then rerender setItem
                               ((showMp3CustomAlert (Sucesso_adicionado fileName) w2)
                                  \<lparr>playlist :=
                                     playlist w2 @ [\<lparr>name = fileName, uri = destinationUri\<rparr>]\<rparr>)
                        else showMp3CustomAlert (Aviso_ja_na_playlist fileName) w2))))"

text \<open>
  \<^verbatim>\<open>removeMp3Audio\<close>, lines 268-280. The test of line 269 compares the \<^verbatim>\<open>_uri\<close> read
  from the sound held with the uri to remove.
\<close>

definition removeMp3Audio ::
  "string \<Rightarrow> string \<Rightarrow> promise \<Rightarrow> promise \<Rightarrow> promise \<Rightarrow> promise \<Rightarrow> world \<Rightarrow> world" where
  "removeMp3Audio itemUri fileName stopAsync unload delete setItem w =
     (let w1 = (case currentMp3Sound w of
                  None \<Rightarrow> w
                | Some s \<Rightarrow>
                    if sound_uri s = Some itemUri then stopMp3Audio stopAsync unload w
                    else w)
      in case delete of
           Rejects \<Rightarrow> showMp3CustomAlert Erro_ao_Remover w1
         | Resolves \<Rightarrow>
             rerender setItem
               (showMp3CustomAlert (Sucesso_removido fileName)
                  (w1\<lparr>files := deleteAsync itemUri (files w1),
                      playlist := filter (\<lambda>item. uri item \<noteq> itemUri) (playlist w1)\<rparr>)))"

subsection \<open>Sequences of playlist operations\<close>

text \<open>
  The operations that change the playlist, each run to its end with the answers of the
  platform it meets: adding a picked file, removing a track, and starting the
  application again over the file system and storage as they are.
\<close>

datatype store_op =
    Add picked promise promise promise promise
  | Remove string string promise promise promise promise
  | Launch promise promise promise promise

fun apply_op :: "store_op \<Rightarrow> world \<Rightarrow> world" where
  "apply_op (Add result getInfo mkdir copy setItem) w =
     pickMp3File result getInfo mkdir copy setItem w"
| "apply_op (Remove itemUri fileName stopAsync unload delete setItem) w =
     removeMp3Audio itemUri fileName stopAsync unload delete setItem w"
| "apply_op (Launch setItem getItem getInfo setItem') w =
     launch setItem getItem getInfo setItem' (files w) (stored w)"

fun run :: "store_op list \<Rightarrow> world \<Rightarrow> world" where
  "run [] w = w"
| "run (op # ops) w = run ops (apply_op op w)"

text \<open>
  The player of \<^verbatim>\<open>Gym_app_mobile/app.js\<close> has the same two handlers under these names.
\<close>

abbreviation (input) pickAudioFile ::
  "picked \<Rightarrow> promise \<Rightarrow> promise \<Rightarrow> promise \<Rightarrow> promise \<Rightarrow> world \<Rightarrow> world" where
  "pickAudioFile \<equiv> pickMp3File"

abbreviation (input) removeAudio ::
  "string \<Rightarrow> string \<Rightarrow> promise \<Rightarrow> promise \<Rightarrow> promise \<Rightarrow> promise \<Rightarrow> world \<Rightarrow> world" where
  "removeAudio \<equiv> removeMp3Audio"

subsection \<open>Observations\<close>

text \<open>The playback session: the sound held, the playing flag, the last status, and the
  sounds the engine holds loaded.\<close>

definition session :: "world \<Rightarrow> sound option \<times> bool \<times> status option \<times> sound list" where
  "session w = (currentMp3Sound w, isMp3Playing w, mp3PlaybackStatus w, loaded w)"

text \<open>No two tracks of the playlist, and no two of the stored playlist, have the same uri.\<close>

definition uris_distinct :: "world \<Rightarrow> bool" where
  "uris_distinct w =
     (distinct (map uri (playlist w)) \<and>
      (case stored w of None \<Rightarrow> True | Some pl \<Rightarrow> distinct (map uri pl)))"

subsection \<open>Concrete runs\<close>

text \<open>
  A device whose cache holds two picked files with different bytes; the application
  started on it for the first time; \<^verbatim>\<open>a.mp3\<close> added from the first cache file; and
  \<^verbatim>\<open>a.mp3\<close> added again from the second.
\<close>

definition cache_files :: "string \<Rightarrow> node option" where
  "cache_files =
     [''file:///cache/1.mp3'' \<mapsto> File [1], ''file:///cache/2.mp3'' \<mapsto> File [2]]"

definition started :: world where
  "started = launch Resolves Resolves Resolves Resolves cache_files None"

definition added_once :: world where
  "added_once =
     pickMp3File (Asset ''a.mp3'' ''file:///cache/1.mp3'')
       Resolves Resolves Resolves Resolves started"

definition added_twice :: world where
  "added_twice =
     pickMp3File (Asset ''a.mp3'' ''file:///cache/2.mp3'')
       Resolves Resolves Resolves Resolves added_once"

text \<open>
  A stored playlist of three tracks on a device where the file of the second is gone.
\<close>

definition track_a :: track where
  "track_a = \<lparr>name = ''a.mp3'', uri = AUDIO_DIR @ ''a.mp3''\<rparr>"

definition track_b :: track where
  "track_b = \<lparr>name = ''b.mp3'', uri = AUDIO_DIR @ ''b.mp3''\<rparr>"

definition track_c :: track where
  "track_c = \<lparr>name = ''c.mp3'', uri = AUDIO_DIR @ ''c.mp3''\<rparr>"

definition files_a_c :: "string \<Rightarrow> node option" where
  "files_a_c =
     [AUDIO_DIR \<mapsto> Dir, AUDIO_DIR @ ''a.mp3'' \<mapsto> File [1], AUDIO_DIR @ ''c.mp3'' \<mapsto> File [3]]"

text \<open>
  A playlist of two tracks whose files exist, once the application has started and
  loaded it; and the first of the two being played.
\<close>

definition files_a_b :: "string \<Rightarrow> node option" where
  "files_a_b =
     [AUDIO_DIR \<mapsto> Dir, AUDIO_DIR @ ''a.mp3'' \<mapsto> File [1], AUDIO_DIR @ ''b.mp3'' \<mapsto> File [2]]"

definition two_tracks :: world where
  "two_tracks =
     launch Resolves Resolves Resolves Resolves files_a_b (Some [track_a, track_b])"

definition playing_first_of_two :: world where
  "playing_first_of_two = playMp3Audio (uri track_a) Resolves two_tracks"

text \<open>
  Two presses of play, on \<^verbatim>\<open>a.mp3\<close> and then on \<^verbatim>\<open>b.mp3\<close>, before either \<^verbatim>\<open>createAsync\<close>
  has settled; then the two promises resolving in either order.
\<close>

definition song_a :: sound where
  "song_a = Sound 0 ''a.mp3'' None"

definition song_b :: sound where
  "song_b = Sound 1 ''b.mp3'' None"

definition both_requested :: world where
  "both_requested =
     snd (playMp3Audio_begin ''b.mp3'' (snd (playMp3Audio_begin ''a.mp3'' started)))"

definition a_then_b :: world where
  "a_then_b =
     playMp3Audio_end song_b Resolves (playMp3Audio_end song_a Resolves both_requested)"

definition b_then_a :: world where
  "b_then_a =
     playMp3Audio_end song_a Resolves (playMp3Audio_end song_b Resolves both_requested)"

text \<open>One press of play run to its end, and three statuses the engine may report.\<close>

definition playing_a :: world where
  "playing_a = playMp3Audio ''a.mp3'' Resolves started"

definition tick :: status where
  "tick = \<lparr>positionMillis = 1000, durationMillis = 9000, didJustFinish = False\<rparr>"

definition tock :: status where
  "tock = \<lparr>positionMillis = 2000, durationMillis = 7000, didJustFinish = False\<rparr>"

definition finished :: status where
  "finished = \<lparr>positionMillis = 9000, durationMillis = 9000, didJustFinish = True\<rparr>"

section \<open>Properties\<close>

subsection \<open>Unfolding and frame facts\<close>

lemmas store_defs =
  launch_def mount_def initial_world_def loadMp3Playlist_begin_def loadMp3Playlist_end_def
  save_effect_def rerender_def saveMp3Playlist_def showMp3CustomAlert_def
  pickMp3File_def removeMp3Audio_def stopMp3Audio_def unloadAsync_def
  exists_at_def makeDirectoryAsync_def copyAsync_def deleteAsync_def
  AUDIO_DIR_def documentDirectory_def Let_def

lemmas play_defs =
  playMp3Audio_def playMp3Audio_begin_def playMp3Audio_end_def createAsync_def unloadAsync_def
  onMp3PlaybackStatusUpdate_def status_event_def stopMp3Audio_def showMp3CustomAlert_def

lemma probe_filter: "probe fs acc pl = acc @ filter (\<lambda>item. exists_at fs (uri item)) pl"
  by (induction pl arbitrary: acc) simp_all

lemma playlist_alert [simp]: "playlist (showMp3CustomAlert a w) = playlist w"
  by (simp add: showMp3CustomAlert_def)

lemma playlist_rerender [simp]: "playlist (rerender p w) = playlist w"
  by (cases p) (simp_all add: rerender_def save_effect_def saveMp3Playlist_def
      showMp3CustomAlert_def)

lemma playlist_stop [simp]: "playlist (stopMp3Audio p q w) = playlist w"
  by (simp add: stopMp3Audio_def showMp3CustomAlert_def unloadAsync_def
      split: option.splits promise.splits)

lemma stop_frame [simp]:
  "files (stopMp3Audio p q w) = files w"
  "stored (stopMp3Audio p q w) = stored w"
  by (simp_all add: stopMp3Audio_def showMp3CustomAlert_def unloadAsync_def
      split: option.splits promise.splits)

lemma rerender_files [simp]: "files (rerender p w) = files w"
  by (cases p) (simp_all add: rerender_def save_effect_def saveMp3Playlist_def
      showMp3CustomAlert_def)


lemma rerender_while_loading: "mp3Loading w \<Longrightarrow> rerender p w = w"
  by (simp add: rerender_def save_effect_def)

lemma rerender_after_loading:
  "\<not> mp3Loading w \<Longrightarrow> stored (rerender Resolves w) = Some (playlist w)"
  by (simp add: rerender_def save_effect_def saveMp3Playlist_def)

lemma session_frame [simp]:
  "session (showMp3CustomAlert a w) = session w"
  "session (rerender p w) = session w"
  "session (w\<lparr>files := f, playlist := pl\<rparr>) = session w"
  by (cases p; simp add: session_def showMp3CustomAlert_def rerender_def save_effect_def
      saveMp3Playlist_def)+

lemma mp3Loading_stop [simp]: "mp3Loading (stopMp3Audio p q w) = mp3Loading w"
  by (simp add: stopMp3Audio_def showMp3CustomAlert_def unloadAsync_def
      split: option.splits promise.splits)

lemma remove_resolved:
  "removeMp3Audio itemUri fileName p q Resolves setItem w =
     rerender setItem
       (showMp3CustomAlert (Sucesso_removido fileName)
          ((case currentMp3Sound w of
              None \<Rightarrow> w
            | Some s \<Rightarrow> if sound_uri s = Some itemUri then stopMp3Audio p q w else w)
           \<lparr>files := deleteAsync itemUri (files w),
             playlist := filter (\<lambda>item. uri item \<noteq> itemUri) (playlist w)\<rparr>))"
  by (simp add: removeMp3Audio_def Let_def split: option.splits)




subsection \<open>The four ways \<^verbatim>\<open>pickMp3File\<close> can end\<close>

lemma pickMp3File_cases:
  obtains
    (canceled) "pickMp3File result getInfo mkdir copy setItem w = w"
  | (failed) f where
      "pickMp3File result getInfo mkdir copy setItem w =
         showMp3CustomAlert Erro_ao_Adicionar (w\<lparr>files := f\<rparr>)"
  | (duplicate) f fileName fileUri where
      "result = Asset fileName fileUri"
      "list_ex (\<lambda>item. uri item = AUDIO_DIR @ fileName) (playlist w)"
      "pickMp3File result getInfo mkdir copy setItem w =
         showMp3CustomAlert (Aviso_ja_na_playlist fileName) (w\<lparr>files := f\<rparr>)"
  | (added) f fileName fileUri where
      "result = Asset fileName fileUri"
      "\<not> list_ex (\<lambda>item. uri item = AUDIO_DIR @ fileName) (playlist w)"
      "pickMp3File result getInfo mkdir copy setItem w =
         rerender setItem
           ((showMp3CustomAlert (Sucesso_adicionado fileName) (w\<lparr>files := f\<rparr>))
              \<lparr>playlist := playlist w @ [\<lparr>name = fileName, uri = AUDIO_DIR @ fileName\<rparr>]\<rparr>)"
proof (cases result)
  case PickerThrows
  then have "pickMp3File result getInfo mkdir copy setItem w =
      showMp3CustomAlert Erro_ao_Adicionar (w\<lparr>files := files w\<rparr>)"
    by (simp add: pickMp3File_def)
  then show ?thesis by (rule failed)
next
  case Canceled
  then show ?thesis by (intro canceled) (simp add: pickMp3File_def)
next
  case (Asset fileName fileUri)
  define w1 where "w1 = (if \<not> exists_at (files w) AUDIO_DIR
                       then w\<lparr>files := makeDirectoryAsync AUDIO_DIR (files w)\<rparr> else w)"
  have w1: "w1 = w\<lparr>files := files w1\<rparr>"
    by (simp add: w1_def)
  have pl: "playlist w1 = playlist w"
    by (simp add: w1_def)
  show ?thesis
  proof (cases "getInfo = Rejects \<or> (\<not> exists_at (files w) AUDIO_DIR \<and> mkdir = Rejects)")
    case True
    then have "pickMp3File result getInfo mkdir copy setItem w =
        showMp3CustomAlert Erro_ao_Adicionar (w\<lparr>files := files w\<rparr>)"
      using Asset by (auto simp: pickMp3File_def)
    then show ?thesis by (rule failed)
  next
    case False
    then have unfold: "pickMp3File result getInfo mkdir copy setItem w =
        (if copy = Rejects then showMp3CustomAlert Erro_ao_Adicionar w1
         else (case copyAsync fileUri (AUDIO_DIR @ fileName) (files w1) of
                 None \<Rightarrow> showMp3CustomAlert Erro_ao_Adicionar w1
               | Some fs \<Rightarrow>
                   (let w2 = w1\<lparr>files := fs\<rparr> in
                    if \<not> list_ex (\<lambda>item. uri item = AUDIO_DIR @ fileName) (playlist w2)
                    then rerender setItem
                           ((showMp3CustomAlert (Sucesso_adicionado fileName) w2)
                              \<lparr>playlist :=
                                 playlist w2 @ [\<lparr>name = fileName, uri = AUDIO_DIR @ fileName\<rparr>]\<rparr>)
                    else showMp3CustomAlert (Aviso_ja_na_playlist fileName) w2)))"
      using Asset unfolding w1_def pickMp3File_def by (auto simp: Let_def)
    show ?thesis
    proof (cases "copy = Rejects \<or> copyAsync fileUri (AUDIO_DIR @ fileName) (files w1) = None")
      case True
      then have "pickMp3File result getInfo mkdir copy setItem w =
          showMp3CustomAlert Erro_ao_Adicionar (w\<lparr>files := files w1\<rparr>)"
        using unfold w1 by auto
      then show ?thesis by (rule failed)
    next
      case False
      then obtain fs where fs: "copyAsync fileUri (AUDIO_DIR @ fileName) (files w1) = Some fs"
        and cp: "copy \<noteq> Rejects"
        by auto
      have w2: "w1\<lparr>files := fs\<rparr> = w\<lparr>files := fs\<rparr>"
        by (simp add: w1_def)
      show ?thesis
      proof (cases "list_ex (\<lambda>item. uri item = AUDIO_DIR @ fileName) (playlist w)")
        case True
        with unfold fs cp w2 have "pickMp3File result getInfo mkdir copy setItem w =
            showMp3CustomAlert (Aviso_ja_na_playlist fileName) (w\<lparr>files := fs\<rparr>)"
          by (simp add: Let_def)
        with Asset True show ?thesis by (rule duplicate)
      next
        case False
        with unfold fs cp w2 have "pickMp3File result getInfo mkdir copy setItem w =
            rerender setItem
              ((showMp3CustomAlert (Sucesso_adicionado fileName) (w\<lparr>files := fs\<rparr>))
                 \<lparr>playlist := playlist w @ [\<lparr>name = fileName, uri = AUDIO_DIR @ fileName\<rparr>]\<rparr>)"
          by (simp add: Let_def)
        with Asset False show ?thesis by (rule added)
      qed
    qed
  qed
qed

lemma pick_added:
  assumes "\<not> list_ex (\<lambda>item. uri item = AUDIO_DIR @ fileName) (playlist w)"
    and "exists_at (files w) fileUri"
  obtains f where
    "pickMp3File (Asset fileName fileUri) Resolves Resolves Resolves setItem w =
       rerender setItem
         ((showMp3CustomAlert (Sucesso_adicionado fileName) (w\<lparr>files := f\<rparr>))
            \<lparr>playlist := playlist w @ [\<lparr>name = fileName, uri = AUDIO_DIR @ fileName\<rparr>]\<rparr>)"
    and "exists_at f (AUDIO_DIR @ fileName)"
proof -
  define fs1 where "fs1 = (if \<not> exists_at (files w) AUDIO_DIR
     then makeDirectoryAsync AUDIO_DIR (files w) else files w)"
  have src: "exists_at fs1 fileUri"
    using assms(2) by (simp add: fs1_def exists_at_def makeDirectoryAsync_def)
  have "pickMp3File (Asset fileName fileUri) Resolves Resolves Resolves setItem w =
       rerender setItem
         ((showMp3CustomAlert (Sucesso_adicionado fileName)
             (w\<lparr>files := fs1(AUDIO_DIR @ fileName := fs1 fileUri)\<rparr>))
            \<lparr>playlist := playlist w @ [\<lparr>name = fileName, uri = AUDIO_DIR @ fileName\<rparr>]\<rparr>)"
    using assms(1) src unfolding fs1_def pickMp3File_def
    by (auto simp: copyAsync_def Let_def split: if_splits)
  moreover have "exists_at (fs1(AUDIO_DIR @ fileName := fs1 fileUri)) (AUDIO_DIR @ fileName)"
    using src by (simp add: exists_at_def)
  ultimately show ?thesis by (rule that)
qed

subsection \<open>Distinct uris are kept by every playlist operation\<close>

lemma uris_distinct_alert [simp]:
  "uris_distinct (showMp3CustomAlert a w) = uris_distinct w"
  by (simp add: uris_distinct_def showMp3CustomAlert_def)

lemma uris_distinct_files [simp]:
  "uris_distinct (w\<lparr>files := f\<rparr>) = uris_distinct w"
  by (simp add: uris_distinct_def)

lemma uris_distinct_rerender:
  "uris_distinct w \<Longrightarrow> uris_distinct (rerender p w)"
  by (cases p) (simp_all add: uris_distinct_def rerender_def save_effect_def saveMp3Playlist_def
      showMp3CustomAlert_def)

lemma uris_distinct_stop [simp]:
  "uris_distinct (stopMp3Audio p q w) = uris_distinct w"
  by (simp add: uris_distinct_def stopMp3Audio_def showMp3CustomAlert_def unloadAsync_def
      split: option.splits promise.splits)

lemma uris_distinct_pick:
  assumes "uris_distinct w"
  shows "uris_distinct (pickMp3File result getInfo mkdir copy setItem w)"
proof (cases result getInfo mkdir copy setItem w rule: pickMp3File_cases)
  case (added f fileName fileUri)
  have "uris_distinct
     ((showMp3CustomAlert (Sucesso_adicionado fileName) (w\<lparr>files := f\<rparr>))
        \<lparr>playlist := playlist w @ [\<lparr>name = fileName, uri = AUDIO_DIR @ fileName\<rparr>]\<rparr>)"
    using assms added(2)
    by (auto simp: uris_distinct_def showMp3CustomAlert_def list_ex_iff)
  then show ?thesis
    unfolding added(3) by (rule uris_distinct_rerender)
qed (use assms in simp_all)

lemma uris_distinct_remove:
  assumes "uris_distinct w"
  shows "uris_distinct (removeMp3Audio itemUri fileName stopAsync unload delete setItem w)"
proof -
  define w1 where "w1 = (case currentMp3Sound w of
                  None \<Rightarrow> w
                | Some s \<Rightarrow> if sound_uri s = Some itemUri then stopMp3Audio stopAsync unload w else w)"
  have w1: "uris_distinct w1"
    using assms by (simp add: w1_def split: option.splits)
  have "uris_distinct (showMp3CustomAlert (Sucesso_removido fileName)
      (w1\<lparr>files := deleteAsync itemUri (files w1),
          playlist := filter (\<lambda>item. uri item \<noteq> itemUri) (playlist w1)\<rparr>))"
    using w1 by (simp add: uris_distinct_def showMp3CustomAlert_def distinct_map_filter)
  then show ?thesis
    using w1 by (cases delete)
      (simp_all add: removeMp3Audio_def w1_def[symmetric] uris_distinct_rerender)
qed

lemma uris_distinct_launch:
  assumes "case st of None \<Rightarrow> True | Some pl \<Rightarrow> distinct (map uri pl)"
  shows "uris_distinct (launch setItem getItem getInfo setItem' fs st)"
proof -
  obtain w item where m: "mount setItem (initial_world fs st) = (w, item)"
    by (cases "mount setItem (initial_world fs st)")
  have item: "item = st" and w: "uris_distinct w" and fw: "files w = fs"
    using m assms
    by (cases setItem; auto simp: mount_def Let_def initial_world_def loadMp3Playlist_begin_def
        save_effect_def saveMp3Playlist_def showMp3CustomAlert_def uris_distinct_def)+
  have "uris_distinct (loadMp3Playlist_end r getInfo setItem' w)"
    if "r = ReadThrows \<or> r = Read st" for r
    unfolding loadMp3Playlist_end_def Let_def
    using that w assms
    by (intro uris_distinct_rerender)
      (auto simp: uris_distinct_def showMp3CustomAlert_def probe_filter distinct_map_filter
        split: option.splits read.splits)
  then show ?thesis
    by (cases getItem) (simp_all add: launch_def m item)
qed

lemma uris_distinct_apply_op:
  assumes "uris_distinct w"
  shows "uris_distinct (apply_op op w)"
proof (cases op)
  case (Launch setItem getItem getInfo setItem')
  from assms have "case stored w of None \<Rightarrow> True | Some pl \<Rightarrow> distinct (map uri pl)"
    by (simp add: uris_distinct_def)
  then show ?thesis
    by (simp add: Launch uris_distinct_launch)
qed (use assms in \<open>simp_all add: uris_distinct_pick uris_distinct_remove\<close>)

lemma uris_distinct_run: "uris_distinct w \<Longrightarrow> uris_distinct (run ops w)"
  by (induction ops arbitrary: w) (simp_all add: uris_distinct_apply_op)

subsection \<open>What a launch leaves\<close>



subsection \<open>The concrete runs, evaluated\<close>

lemma started_eq:
  "started = \<lparr>playlist = [], currentMp3Sound = None, isMp3Playing = False,
      mp3PlaybackStatus = None, mp3ErrorMessage = None, showMp3ErrorModal = False,
      mp3Loading = False, files = cache_files, stored = Some [], loaded = [], created = 0\<rparr>"
  by (simp add: started_def store_defs)

lemma added_once_eq:
  "added_once = \<lparr>playlist = [\<lparr>name = ''a.mp3'', uri = AUDIO_DIR @ ''a.mp3''\<rparr>],
      currentMp3Sound = None, isMp3Playing = False,
      mp3PlaybackStatus = None, mp3ErrorMessage = Some (Sucesso_adicionado ''a.mp3''),
      showMp3ErrorModal = True,
      mp3Loading = False,
      files = cache_files(AUDIO_DIR \<mapsto> Dir, AUDIO_DIR @ ''a.mp3'' \<mapsto> File [1]),
      stored = Some [\<lparr>name = ''a.mp3'', uri = AUDIO_DIR @ ''a.mp3''\<rparr>], loaded = [], created = 0\<rparr>"
  unfolding added_once_def started_eq
  by (simp add: pickMp3File_def exists_at_def makeDirectoryAsync_def copyAsync_def
      rerender_def save_effect_def saveMp3Playlist_def showMp3CustomAlert_def Let_def
      cache_files_def AUDIO_DIR_def documentDirectory_def)

lemma both_requested_eq: "both_requested = started\<lparr>created := 2\<rparr>"
  by (simp add: both_requested_def started_eq play_defs)

lemma requests:
  "playMp3Audio_begin ''a.mp3'' started = (song_a, started\<lparr>created := 1\<rparr>)"
  "playMp3Audio_begin ''b.mp3'' (started\<lparr>created := 1\<rparr>) = (song_b, both_requested)"
  by (simp_all add: both_requested_eq started_eq play_defs song_a_def song_b_def)

lemma playing_a_eq:
  "playing_a = started\<lparr>created := 1, loaded := [song_a], currentMp3Sound := Some song_a,
     isMp3Playing := True\<rparr>"
  by (simp add: playing_a_def started_eq play_defs song_a_def)

subsection \<open>Playback\<close>

text \<open>
  A press of play whose \<^verbatim>\<open>unloadAsync\<close> rejects changes nothing and shows no alert; in
  every other case the press is \<open>playMp3Audio\<close>.
\<close>

lemma play_press_unload_rejects:
  "currentMp3Sound w \<noteq> None \<Longrightarrow> playMp3Audio_press Rejects itemUri create w = w"
  "currentMp3Sound w = None \<or> unload = Resolves \<Longrightarrow>
     playMp3Audio_press unload itemUri create w = playMp3Audio itemUri create w"
  by (auto simp: playMp3Audio_press_def split: option.splits promise.splits)

text \<open>
  When the engine holds no sound but the current one, a press of play run to its end
  unloads the current sound before the new one is loaded, also when both have the
  same uri; afterwards only the new sound is loaded and it is the current one.
\<close>

lemma play_supersedes:
  assumes "loaded w = (case currentMp3Sound w of None \<Rightarrow> [] | Some s \<Rightarrow> [s])"
  shows "loaded (playMp3Audio itemUri Resolves w) = [Sound (created w) itemUri (currentMp3Sound w)]"
    and "currentMp3Sound (playMp3Audio itemUri Resolves w)
           = Some (Sound (created w) itemUri (currentMp3Sound w))"
  using assms by (simp_all add: play_defs split: option.splits)

text \<open>
  Two presses of play while no sound is held, the second before the first
  \<^verbatim>\<open>createAsync\<close> has settled: neither press unloads anything, and when both promises
  have resolved the engine holds both new sounds on top of what it held.
\<close>

lemma overlapping_plays_add_two_sounds:
  assumes "currentMp3Sound w = None"
  shows "(case playMp3Audio_begin a w of
            (sa, w1) \<Rightarrow>
              (case playMp3Audio_begin b w1 of
                 (sb, w2) \<Rightarrow>
                   sa \<noteq> sb \<and>
                   loaded (playMp3Audio_end sb Resolves (playMp3Audio_end sa Resolves w2))
                     = loaded w @ [sa, sb] \<and>
                   loaded (playMp3Audio_end sa Resolves (playMp3Audio_end sb Resolves w2))
                     = loaded w @ [sb, sa]))"
  using assms by (simp add: play_defs)

text \<open>
  C1. Single voice when one play supersedes another. The code does not keep this: on
  the run where play is pressed on \<^verbatim>\<open>a.mp3\<close> and then on \<^verbatim>\<open>b.mp3\<close> before the first
  \<^verbatim>\<open>createAsync\<close> has settled, the second press finds \<^verbatim>\<open>currentMp3Sound\<close> empty and unloads
  nothing. When both promises have resolved both sounds are loaded; the current sound
  is whichever resolved last, so it is the first track when the second resolves first.
\<close>

theorem overlapping_plays_leave_two_sounds_loaded:
  "playMp3Audio_begin ''a.mp3'' started = (song_a, started\<lparr>created := 1\<rparr>) \<and>
   playMp3Audio_begin ''b.mp3'' (started\<lparr>created := 1\<rparr>) = (song_b, both_requested) \<and>
   loaded both_requested = [] \<and>
   loaded a_then_b = [song_a, song_b] \<and>
   currentMp3Sound a_then_b = Some song_b \<and>
   loaded b_then_a = [song_b, song_a] \<and>
   currentMp3Sound b_then_a = Some song_a"
  using requests
  by (simp add: a_then_b_def b_then_a_def both_requested_eq started_eq playMp3Audio_end_def)

text \<open>
  Against C5 as stated: on the run above the session holds \<open>song_b\<close>. A status that
  \<open>song_b\<close> reports is stored, and a status that \<open>song_a\<close> reports after it replaces it
  all the same; and the load of \<open>song_a\<close>, superseded by the press on \<^verbatim>\<open>b.mp3\<close>, still
  makes \<open>song_a\<close> the current sound when it resolves last.
\<close>

theorem stale_update_is_applied:
  "currentMp3Sound a_then_b = Some song_b \<and> song_a \<noteq> song_b \<and>
   mp3PlaybackStatus (status_event song_b tock a_then_b) = Some tock \<and>
   mp3PlaybackStatus (status_event song_a tick (status_event song_b tock a_then_b))
     = Some tick \<and>
   tick \<noteq> tock \<and>
   currentMp3Sound (status_event song_a tick (status_event song_b tock a_then_b))
     = Some song_b \<and>
   currentMp3Sound (playMp3Audio_end song_b Resolves both_requested) = Some song_b \<and>
   currentMp3Sound b_then_a = Some song_a"
  by (simp add: a_then_b_def b_then_a_def both_requested_eq started_eq
      playMp3Audio_end_def status_event_def onMp3PlaybackStatusUpdate_def tick_def tock_def
      song_a_def song_b_def)

text \<open>
  C5, as the code has it. The callback never looks at the sound a status comes from,
  nor at the sound the session holds: every status passed to it, by whichever sound,
  becomes \<^verbatim>\<open>mp3PlaybackStatus\<close>, and a status that does not end the track changes
  nothing else.
\<close>

theorem every_update_is_applied:
  "mp3PlaybackStatus (onMp3PlaybackStatusUpdate cur st w) = Some st \<and>
   mp3PlaybackStatus (status_event s st w) = Some st \<and>
   (\<not> didJustFinish st \<longrightarrow>
      onMp3PlaybackStatusUpdate cur st w = w\<lparr>mp3PlaybackStatus := Some st\<rparr> \<and>
      status_event s st w = w\<lparr>mp3PlaybackStatus := Some st\<rparr>)"
  by (simp add: play_defs Let_def split: option.splits)

theorem every_update_is_applied_witness:
  "currentMp3Sound a_then_b = Some song_b \<and> song_a \<noteq> song_b \<and>
   \<not> didJustFinish tick \<and>
   mp3PlaybackStatus (status_event song_a tick a_then_b) = Some tick \<and>
   status_event song_a tick a_then_b = a_then_b\<lparr>mp3PlaybackStatus := Some tick\<rparr>"
  using every_update_is_applied [of "captured song_a" tick a_then_b song_a]
  by (simp add: a_then_b_def both_requested_eq started_eq playMp3Audio_end_def
      song_a_def song_b_def tick_def)

text \<open>
  Had the callback captured the sound that is current, the end of a track would do what
  \<^verbatim>\<open>stopMp3Audio\<close> does, but for the status, which it stores rather than clears.
\<close>

lemma finish_is_stop_but_status:
  assumes "didJustFinish st" and "currentMp3Sound w = Some s"
  shows "onMp3PlaybackStatusUpdate (Some s) st w
           = (stopMp3Audio Resolves Resolves w)\<lparr>mp3PlaybackStatus := Some st\<rparr>"
  using assms by (simp add: play_defs)

text \<open>
  A sound is not the sound its own callback has captured, so the callback of a sound
  that reports the end of its track never unloads that sound: after any press of play
  run to its end, the end of the track leaves the new sound loaded.
\<close>

lemma captured_is_smaller: "captured s = Some p \<Longrightarrow> size p < size s"
  by (cases s) simp

lemma captured_is_older: "captured s \<noteq> Some s"
  using captured_is_smaller [of s s] by auto

lemma finished_sound_is_kept:
  assumes "didJustFinish st"
  shows "Sound (created w) itemUri (currentMp3Sound w)
           \<in> set (loaded (status_event (Sound (created w) itemUri (currentMp3Sound w)) st
                (playMp3Audio itemUri Resolves w)))"
proof (cases "currentMp3Sound w")
  case None
  with assms show ?thesis
    by (simp add: play_defs Let_def)
next
  case (Some p)
  have "p \<noteq> Sound (created w) itemUri (Some p)"
    using captured_is_older [of "Sound (created w) itemUri (Some p)"] by auto
  with assms Some show ?thesis
    by (simp add: play_defs Let_def)
qed

text \<open>
  C6. The end of a track leaves the session as \<^verbatim>\<open>stopMp3Audio\<close> does. The code does not
  keep this: after one press of play from the idle state, the callback registered with
  the sound has captured the empty \<^verbatim>\<open>currentMp3Sound\<close> of the render the press happened
  in, so when the sound reports \<^verbatim>\<open>didJustFinish\<close> nothing is unloaded and the sound stays
  current and loaded, with the last status stored; \<^verbatim>\<open>stopMp3Audio\<close> from the same state
  unloads the sound and clears all of it. Even a callback that had captured the
  current sound would leave the last status in place.
\<close>

theorem finished_sound_stays_loaded:
  "session playing_a = (Some song_a, True, None, [song_a]) \<and>
   session (status_event song_a finished playing_a) = (Some song_a, False, Some finished, [song_a]) \<and>
   session (stopMp3Audio Resolves Resolves playing_a) = (None, False, None, []) \<and>
   session (onMp3PlaybackStatusUpdate (Some song_a) finished playing_a)
     = (None, False, Some finished, [])"
  by (simp add: playing_a_eq started_eq session_def play_defs finished_def song_a_def)

text \<open>
  C7. \<^verbatim>\<open>pauseMp3Audio\<close> called when no sound is held or the player is not playing, and
  \<^verbatim>\<open>stopMp3Audio\<close> called when no sound is held, return the world as it was, whatever
  the platform would have answered: no cell changes and no alert is shown.
\<close>

theorem invalid_transition_is_noop:
  "(\<not> (currentMp3Sound w \<noteq> None \<and> isMp3Playing w) \<longrightarrow> pauseMp3Audio p w = w) \<and>
   (currentMp3Sound w = None \<longrightarrow> stopMp3Audio p q w = w)"
  by (simp add: pauseMp3Audio_def stopMp3Audio_def)

theorem invalid_transition_is_noop_witness:
  "currentMp3Sound started = None \<and>
   pauseMp3Audio Rejects started = started \<and>
   stopMp3Audio Rejects Rejects started = started"
  using invalid_transition_is_noop [of started Rejects Rejects]
  by (simp add: started_eq)

subsection \<open>The playlist\<close>

text \<open>
  Against C2 as stated: \<^verbatim>\<open>a.mp3\<close> is added from one cache file and then again from
  another. The second add shows the notice that the track is already there and leaves
  the playlist alone, but by then \<^verbatim>\<open>copyAsync\<close> has run and the destination holds the
  bytes of the second file. Were the platform to refuse the copy instead, the second
  add would end in the error alert, not in the notice.
\<close>

theorem duplicate_add_overwrites_file:
  "files added_once (AUDIO_DIR @ ''a.mp3'') = Some (File [1]) \<and>
   files added_twice (AUDIO_DIR @ ''a.mp3'') = Some (File [2]) \<and>
   mp3ErrorMessage added_twice = Some (Aviso_ja_na_playlist ''a.mp3'') \<and>
   playlist added_twice = playlist added_once \<and>
   mp3ErrorMessage
     (pickMp3File (Asset ''a.mp3'' ''file:///cache/2.mp3'')
        Resolves Resolves Rejects Resolves added_once) = Some Erro_ao_Adicionar"
  unfolding added_twice_def added_once_eq
  by (simp add: pickMp3File_def exists_at_def makeDirectoryAsync_def copyAsync_def
      rerender_def save_effect_def saveMp3Playlist_def showMp3CustomAlert_def Let_def
      cache_files_def AUDIO_DIR_def documentDirectory_def)

text \<open>
  C2, as the code has it. An add whose destination is the uri of a track already in
  the playlist copies the picked file onto the destination, so that the destination
  holds what the picked file holds, leaves the playlist and the stored playlist as
  they were, and shows the notice that the track is already there. And in every state
  reached by adding, removing and launching, from a state where uris are distinct, no
  two tracks of the playlist have the same uri.
\<close>

theorem duplicate_add_keeps_playlist:
  "(list_ex (\<lambda>item. uri item = AUDIO_DIR @ fileName) (playlist w) \<and>
    exists_at (files w) fileUri \<longrightarrow>
      playlist (pickMp3File (Asset fileName fileUri) Resolves Resolves Resolves setItem w)
        = playlist w \<and>
      stored (pickMp3File (Asset fileName fileUri) Resolves Resolves Resolves setItem w)
        = stored w \<and>
      mp3ErrorMessage (pickMp3File (Asset fileName fileUri) Resolves Resolves Resolves setItem w)
        = Some (Aviso_ja_na_playlist fileName) \<and>
      files (pickMp3File (Asset fileName fileUri) Resolves Resolves Resolves setItem w)
        (AUDIO_DIR @ fileName)
        = files (pickMp3File (Asset fileName fileUri) Resolves Resolves Resolves setItem w) fileUri \<and>
      exists_at (files (pickMp3File (Asset fileName fileUri) Resolves Resolves Resolves setItem w))
        (AUDIO_DIR @ fileName)) \<and>
   (uris_distinct w \<longrightarrow> distinct (map uri (playlist (run ops w))))"
proof (intro conjI impI)
  assume "uris_distinct w"
  then have "uris_distinct (run ops w)"
    by (rule uris_distinct_run)
  then show "distinct (map uri (playlist (run ops w)))"
    by (simp add: uris_distinct_def)
next
  assume a: "list_ex (\<lambda>item. uri item = AUDIO_DIR @ fileName) (playlist w) \<and>
    exists_at (files w) fileUri"
  let ?w' = "pickMp3File (Asset fileName fileUri) Resolves Resolves Resolves setItem w"
  define fs1 where "fs1 = (if \<not> exists_at (files w) AUDIO_DIR
     then makeDirectoryAsync AUDIO_DIR (files w) else files w)"
  have src: "exists_at fs1 fileUri"
    using a by (simp add: fs1_def exists_at_def makeDirectoryAsync_def)
  have eq: "?w' = showMp3CustomAlert (Aviso_ja_na_playlist fileName)
      (w\<lparr>files := fs1(AUDIO_DIR @ fileName := fs1 fileUri)\<rparr>)"
    using a src unfolding fs1_def pickMp3File_def
    by (auto simp: copyAsync_def Let_def split: if_splits)
  show "playlist ?w' = playlist w" "stored ?w' = stored w"
    "mp3ErrorMessage ?w' = Some (Aviso_ja_na_playlist fileName)"
    "files ?w' (AUDIO_DIR @ fileName) = files ?w' fileUri"
    "exists_at (files ?w') (AUDIO_DIR @ fileName)"
    using src unfolding eq by (simp_all add: showMp3CustomAlert_def exists_at_def)
qed

theorem duplicate_add_keeps_playlist_witness:
  "list_ex (\<lambda>item. uri item = AUDIO_DIR @ ''a.mp3'') (playlist added_once) \<and>
   exists_at (files added_once) ''file:///cache/2.mp3'' \<and>
   uris_distinct added_once \<and>
   playlist added_twice = playlist added_once \<and>
   stored added_twice = stored added_once \<and>
   distinct (map uri (playlist (run
     [Add (Asset ''a.mp3'' ''file:///cache/2.mp3'') Resolves Resolves Resolves Resolves,
      Launch Resolves Resolves Resolves Resolves] added_once)))"
proof -
  have h: "list_ex (\<lambda>item. uri item = AUDIO_DIR @ ''a.mp3'') (playlist added_once) \<and>
      exists_at (files added_once) ''file:///cache/2.mp3''"
    by (simp add: added_once_eq exists_at_def cache_files_def AUDIO_DIR_def
        documentDirectory_def)
  have d: "uris_distinct added_once"
    by (simp add: added_once_eq uris_distinct_def)
  from h d
    duplicate_add_keeps_playlist [of "''a.mp3''" added_once "''file:///cache/2.mp3''"
      Resolves
      "[Add (Asset ''a.mp3'' ''file:///cache/2.mp3'') Resolves Resolves Resolves Resolves,
        Launch Resolves Resolves Resolves Resolves]"]
  show ?thesis
    by (simp add: added_twice_def del: run.simps)
qed

text \<open>
  C3. When the stored playlist has exactly one track whose file is gone and the reads
  and the final write succeed, a launch ends with exactly the other tracks in the
  playlist, in their stored order, one fewer than were stored, and the storage then
  holds exactly that playlist. When the first write succeeds too, no alert is shown.
\<close>

theorem load_drops_missing_track:
  assumes "length (filter (\<lambda>item. \<not> exists_at fs (uri item)) pl) = 1"
  shows "playlist (launch setItem Resolves Resolves Resolves fs (Some pl))
           = filter (\<lambda>item. exists_at fs (uri item)) pl \<and>
         Suc (length (playlist (launch setItem Resolves Resolves Resolves fs (Some pl))))
           = length pl \<and>
         stored (launch setItem Resolves Resolves Resolves fs (Some pl))
           = Some (filter (\<lambda>item. exists_at fs (uri item)) pl) \<and>
         mp3ErrorMessage (launch Resolves Resolves Resolves Resolves fs (Some pl)) = None \<and>
         \<not> showMp3ErrorModal (launch Resolves Resolves Resolves Resolves fs (Some pl))"
proof -
  let ?valid = "filter (\<lambda>item. exists_at fs (uri item)) pl"
  obtain w where m: "mount setItem (initial_world fs (Some pl)) = (w, Some pl)"
    and fw: "files w = fs"
    by (cases setItem)
      (simp_all add: mount_def Let_def initial_world_def loadMp3Playlist_begin_def
        save_effect_def saveMp3Playlist_def showMp3CustomAlert_def)
  have l: "launch setItem Resolves Resolves Resolves fs (Some pl) =
      rerender Resolves (w\<lparr>playlist := ?valid, mp3Loading := False\<rparr>)"
    by (simp add: launch_def m loadMp3Playlist_end_def fw probe_filter)
  have n: "length ?valid + length (filter (\<lambda>item. \<not> exists_at fs (uri item)) pl) = length pl"
    by (rule sum_length_filter_compl)
  have quiet:
    "mp3ErrorMessage (launch Resolves Resolves Resolves Resolves fs (Some pl)) = None"
    "\<not> showMp3ErrorModal (launch Resolves Resolves Resolves Resolves fs (Some pl))"
    by (simp_all add: launch_def mount_def Let_def initial_world_def
        loadMp3Playlist_begin_def loadMp3Playlist_end_def save_effect_def rerender_def
        saveMp3Playlist_def)
  show ?thesis
    using n assms quiet unfolding l
    by (simp add: rerender_def save_effect_def saveMp3Playlist_def)
qed

theorem load_drops_missing_track_witness:
  "length (filter (\<lambda>item. \<not> exists_at files_a_c (uri item)) [track_a, track_b, track_c]) = 1 \<and>
   playlist (launch Resolves Resolves Resolves Resolves files_a_c
      (Some [track_a, track_b, track_c])) = [track_a, track_c] \<and>
   stored (launch Resolves Resolves Resolves Resolves files_a_c
      (Some [track_a, track_b, track_c])) = Some [track_a, track_c] \<and>
   mp3ErrorMessage (launch Resolves Resolves Resolves Resolves files_a_c
      (Some [track_a, track_b, track_c])) = None"
  using load_drops_missing_track [of files_a_c "[track_a, track_b, track_c]" Resolves]
  by (simp add: files_a_c_def track_a_def track_b_def track_c_def exists_at_def
      AUDIO_DIR_def documentDirectory_def)

text \<open>
  Whatever the storage holds, the effects of the first render leave it holding the
  empty playlist when the write resolves, with the load still pending.
\<close>

lemma mount_writes_empty_playlist:
  "mount Resolves (initial_world fs st)
     = ((initial_world fs (Some []))\<lparr>mp3Loading := True\<rparr>, st)"
  by (simp add: mount_def initial_world_def loadMp3Playlist_begin_def save_effect_def
      saveMp3Playlist_def)

text \<open>
  C4. No write of the playlist while the first load is under way. The code does not
  keep this: the save effect of the first render reads \<^verbatim>\<open>mp3Loading\<close> as that render saw
  it, which is false, and writes the empty playlist over a stored playlist of one
  track while the load is still waiting for its read. If the write that follows the
  load then fails, the storage is left holding the empty playlist although the track
  was loaded.
\<close>

theorem first_render_saves_empty_playlist:
  "mount Resolves (initial_world files_a_c (Some [track_a]))
     = ((initial_world files_a_c (Some []))\<lparr>mp3Loading := True\<rparr>, Some [track_a]) \<and>
   playlist (launch Resolves Resolves Resolves Rejects files_a_c (Some [track_a]))
     = [track_a] \<and>
   stored (launch Resolves Resolves Resolves Rejects files_a_c (Some [track_a])) = Some []"
  by (simp add: store_defs files_a_c_def track_a_def)

text \<open>
  Once \<^verbatim>\<open>mp3Loading\<close> is false again, a removal whose deletion resolves and an add that
  appends a track are each followed by a write of the whole playlist, when the write
  resolves.
\<close>

lemma mutation_is_written:
  assumes "\<not> mp3Loading w"
  shows "stored (removeMp3Audio itemUri fileName p q Resolves Resolves w)
           = Some (playlist (removeMp3Audio itemUri fileName p q Resolves Resolves w))"
    and "\<not> list_ex (\<lambda>item. uri item = AUDIO_DIR @ fileName) (playlist w) \<Longrightarrow>
         exists_at (files w) fileUri \<Longrightarrow>
         stored (pickMp3File (Asset fileName fileUri) Resolves Resolves Resolves Resolves w)
           = Some (playlist w @ [\<lparr>name = fileName, uri = AUDIO_DIR @ fileName\<rparr>])"
proof -
  show "stored (removeMp3Audio itemUri fileName p q Resolves Resolves w)
      = Some (playlist (removeMp3Audio itemUri fileName p q Resolves Resolves w))"
    using assms
    by (simp add: remove_resolved rerender_after_loading showMp3CustomAlert_def
        split: option.splits)
next
  assume "\<not> list_ex (\<lambda>item. uri item = AUDIO_DIR @ fileName) (playlist w)"
    and "exists_at (files w) fileUri"
  then obtain f where
    "pickMp3File (Asset fileName fileUri) Resolves Resolves Resolves Resolves w =
       rerender Resolves
         ((showMp3CustomAlert (Sucesso_adicionado fileName) (w\<lparr>files := f\<rparr>))
            \<lparr>playlist := playlist w @ [\<lparr>name = fileName, uri = AUDIO_DIR @ fileName\<rparr>]\<rparr>)"
    by (rule pick_added)
  then show "stored (pickMp3File (Asset fileName fileUri) Resolves Resolves Resolves Resolves w)
      = Some (playlist w @ [\<lparr>name = fileName, uri = AUDIO_DIR @ fileName\<rparr>])"
    using assms by (simp add: rerender_after_loading showMp3CustomAlert_def)
qed




text \<open>
  C9. A pick that is cancelled changes nothing at all. A pick that throws, or whose
  directory probe, directory creation or copy rejects (the copy also when the picked
  file is not there), changes only the alert and, where the directory had been
  created before the copy failed, the file system: the playlist and the stored
  playlist are as they were, and so is every other cell.
\<close>

theorem failed_add_leaves_playlist:
  "pickMp3File Canceled getInfo mkdir copy setItem w = w \<and>
   (result \<noteq> Canceled \<and>
    (result = PickerThrows \<or> getInfo = Rejects \<or>
     (\<not> exists_at (files w) AUDIO_DIR \<and> mkdir = Rejects) \<or> copy = Rejects \<or>
     (\<exists>fileName fileUri. result = Asset fileName fileUri \<and>
        \<not> exists_at (makeDirectoryAsync AUDIO_DIR (files w)) fileUri)) \<longrightarrow>
      pickMp3File result getInfo mkdir copy setItem w =
        showMp3CustomAlert Erro_ao_Adicionar
          (w\<lparr>files := files (pickMp3File result getInfo mkdir copy setItem w)\<rparr>) \<and>
      playlist (pickMp3File result getInfo mkdir copy setItem w) = playlist w \<and>
      stored (pickMp3File result getInfo mkdir copy setItem w) = stored w)"
proof (intro conjI impI)
  show "pickMp3File Canceled getInfo mkdir copy setItem w = w"
    by (simp add: pickMp3File_def)
next
  let ?w' = "pickMp3File result getInfo mkdir copy setItem w"
  assume a: "result \<noteq> Canceled \<and>
    (result = PickerThrows \<or> getInfo = Rejects \<or>
     (\<not> exists_at (files w) AUDIO_DIR \<and> mkdir = Rejects) \<or> copy = Rejects \<or>
     (\<exists>fileName fileUri. result = Asset fileName fileUri \<and>
        \<not> exists_at (makeDirectoryAsync AUDIO_DIR (files w)) fileUri))"
  have "\<exists>f. ?w' = showMp3CustomAlert Erro_ao_Adicionar (w\<lparr>files := f\<rparr>)"
  proof (cases result)
    case PickerThrows
    then have "?w' = showMp3CustomAlert Erro_ao_Adicionar (w\<lparr>files := files w\<rparr>)"
      by (simp add: pickMp3File_def)
    then show ?thesis by blast
  next
    case Canceled
    with a show ?thesis by simp
  next
    case (Asset fileName fileUri)
    show ?thesis
    proof (cases "getInfo = Rejects \<or> (\<not> exists_at (files w) AUDIO_DIR \<and> mkdir = Rejects)")
      case True
      with Asset have "?w' = showMp3CustomAlert Erro_ao_Adicionar (w\<lparr>files := files w\<rparr>)"
        by (auto simp: pickMp3File_def)
      then show ?thesis by blast
    next
      case False
      define fs1 where "fs1 = (if \<not> exists_at (files w) AUDIO_DIR
         then makeDirectoryAsync AUDIO_DIR (files w) else files w)"
      have same: "exists_at fs1 fileUri
          = exists_at (makeDirectoryAsync AUDIO_DIR (files w)) fileUri"
        by (auto simp: fs1_def exists_at_def makeDirectoryAsync_def)
      from a Asset False
      have "copy = Rejects \<or> \<not> exists_at (makeDirectoryAsync AUDIO_DIR (files w)) fileUri"
        by auto
      then have c: "copy = Rejects \<or> copyAsync fileUri (AUDIO_DIR @ fileName) fs1 = None"
        by (auto simp: copyAsync_def same)
      have w1: "(if \<not> exists_at (files w) AUDIO_DIR
                 then w\<lparr>files := makeDirectoryAsync AUDIO_DIR (files w)\<rparr> else w)
                = w\<lparr>files := fs1\<rparr>"
        by (simp add: fs1_def)
      have "?w' = showMp3CustomAlert Erro_ao_Adicionar (w\<lparr>files := fs1\<rparr>)"
        using Asset False c unfolding pickMp3File_def w1 Let_def by auto
      then show ?thesis by blast
    qed
  qed
  then obtain f where f: "?w' = showMp3CustomAlert Erro_ao_Adicionar (w\<lparr>files := f\<rparr>)" ..
  then have ff: "files ?w' = f"
    by (simp add: showMp3CustomAlert_def)
  show "?w' = showMp3CustomAlert Erro_ao_Adicionar (w\<lparr>files := files ?w'\<rparr>)"
    unfolding ff by (rule f)
  show "playlist ?w' = playlist w" "stored ?w' = stored w"
    unfolding f by (simp_all add: showMp3CustomAlert_def)
qed

theorem failed_add_leaves_playlist_witness:
  "Asset ''a.mp3'' ''file:///cache/1.mp3'' \<noteq> Canceled \<and>
   playlist (pickMp3File (Asset ''a.mp3'' ''file:///cache/1.mp3'')
      Resolves Resolves Rejects Resolves started) = playlist started \<and>
   stored (pickMp3File (Asset ''a.mp3'' ''file:///cache/1.mp3'')
      Resolves Resolves Rejects Resolves started) = stored started \<and>
   mp3ErrorMessage (pickMp3File (Asset ''a.mp3'' ''file:///cache/1.mp3'')
      Resolves Resolves Rejects Resolves started) = Some Erro_ao_Adicionar"
  using failed_add_leaves_playlist [of Resolves Resolves Rejects Resolves started
      "Asset ''a.mp3'' ''file:///cache/1.mp3''"]
  by (simp add: pickMp3File_def started_eq exists_at_def cache_files_def
      showMp3CustomAlert_def Let_def)

text \<open>
  Removing a uri keeps every track with another uri, in the same order; when the
  deletion resolves the playlist is exactly those tracks.
\<close>

lemma remove_keeps_other_tracks:
  "filter (\<lambda>item. uri item \<noteq> itemUri)
     (playlist (removeMp3Audio itemUri fileName stopAsync unload delete setItem w))
     = filter (\<lambda>item. uri item \<noteq> itemUri) (playlist w)"
  "playlist (removeMp3Audio itemUri fileName stopAsync unload Resolves setItem w)
     = filter (\<lambda>item. uri item \<noteq> itemUri) (playlist w)"
  by (cases delete; simp add: removeMp3Audio_def Let_def split: option.splits)+

text \<open>
  The test of line 269 is never true, so \<^verbatim>\<open>removeMp3Audio\<close> never calls \<^verbatim>\<open>stopMp3Audio\<close>:
  whatever is removed, the playback session is left as it was.
\<close>

lemma remove_never_stops:
  "session (removeMp3Audio itemUri fileName stopAsync unload delete setItem w) = session w"
  by (cases delete) (simp_all add: removeMp3Audio_def sound_uri_def Let_def split: option.splits)

text \<open>
  C10. Removing a uri keeps the other tracks as they are and leaves the playback
  session alone, unless the sound held is the track removed, which is then stopped
  first. The code does not keep the last part: with two tracks in the playlist and
  the first one playing, removing the first deletes its file and takes it out of the
  playlist, the second track stays, but the sound is not stopped: it is still the
  sound held, still marked as playing and still loaded, where \<^verbatim>\<open>stopMp3Audio\<close> from the
  same state would have unloaded it.
\<close>

theorem remove_leaves_playing_track_loaded:
  "playlist playing_first_of_two = [track_a, track_b] \<and>
   currentMp3Sound playing_first_of_two = Some (Sound 0 (uri track_a) None) \<and>
   isMp3Playing playing_first_of_two \<and>
   loaded playing_first_of_two = [Sound 0 (uri track_a) None] \<and>
   playlist (removeMp3Audio (uri track_a) (name track_a)
      Resolves Resolves Resolves Resolves playing_first_of_two) = [track_b] \<and>
   files (removeMp3Audio (uri track_a) (name track_a)
      Resolves Resolves Resolves Resolves playing_first_of_two) (uri track_a) = None \<and>
   currentMp3Sound (removeMp3Audio (uri track_a) (name track_a)
      Resolves Resolves Resolves Resolves playing_first_of_two)
     = Some (Sound 0 (uri track_a) None) \<and>
   isMp3Playing (removeMp3Audio (uri track_a) (name track_a)
      Resolves Resolves Resolves Resolves playing_first_of_two) \<and>
   loaded (removeMp3Audio (uri track_a) (name track_a)
      Resolves Resolves Resolves Resolves playing_first_of_two)
     = [Sound 0 (uri track_a) None] \<and>
   currentMp3Sound (stopMp3Audio Resolves Resolves playing_first_of_two) = None \<and>
   loaded (stopMp3Audio Resolves Resolves playing_first_of_two) = []"
  by (simp add: playing_first_of_two_def two_tracks_def store_defs play_defs sound_uri_def
      files_a_b_def track_a_def track_b_def)

end
